theory Spec2Isabelle
  imports Complex_Main "HOL-Library.AList"
begin

section \<open>Python values and dictionaries\<close>

text \<open>
  The values a Django field default can hold, as far as \<open>get_field_schema\<close> tells them
  apart: the primitives of \<open>isinstance(default, (str, int, float, bool, type(None)))\<close>,
  a no-argument callable (\<open>PCallable r\<close> returns \<open>r\<close> when called), and any other object,
  which is kept as the text that \<open>str()\<close> gives for it.
\<close>

datatype pyval =
    PNone
  | PBool bool
  | PInt int
  | PFloat real
  | PStr string
  | PCallable pyval
  | PObject string

text \<open>
  What the introspector emits: primitives, lists and dictionaries. A dictionary is an
  association list in insertion order; \<open>d[k] = v\<close> is \<open>AList.update k v d\<close>
  (the value is replaced in place when the key exists, appended otherwise).
\<close>

datatype jval =
    Prim pyval
  | JList "jval list"
  | JDict "(string \<times> jval) list"

type_synonym pydict = "(string \<times> jval) list"

abbreviation JNull :: jval where "JNull \<equiv> Prim PNone"
abbreviation JBool :: "bool \<Rightarrow> jval" where "JBool b \<equiv> Prim (PBool b)"
abbreviation JInt :: "int \<Rightarrow> jval" where "JInt i \<equiv> Prim (PInt i)"
abbreviation JStr :: "string \<Rightarrow> jval" where "JStr s \<equiv> Prim (PStr s)"

definition dict_get :: "pydict \<Rightarrow> string \<Rightarrow> jval option" where
  "dict_get d k = map_of d k"

definition dict_keys :: "pydict \<Rightarrow> string list" where
  "dict_keys d = map fst d"

fun dict_update :: "pydict \<Rightarrow> pydict \<Rightarrow> pydict" where
  "dict_update d [] = d"
| "dict_update d ((k, v) # kvs) = dict_update (AList.update k v d) kvs"

text \<open>\<open>callable(x)\<close> and the \<open>isinstance\<close> test of the default branch.\<close>

fun callable :: "pyval \<Rightarrow> bool" where
  "callable (PCallable r) = True"
| "callable v = False"

fun is_primitive :: "pyval \<Rightarrow> bool" where
  "is_primitive PNone = True"
| "is_primitive (PBool b) = True"
| "is_primitive (PInt i) = True"
| "is_primitive (PFloat x) = True"
| "is_primitive (PStr s) = True"
| "is_primitive (PCallable r) = False"
| "is_primitive (PObject s) = False"

text \<open>
  \<open>str(x)\<close> is needed only where \<open>get_field_schema\<close> calls it, on a value that is
  neither callable nor primitive; such a value carries its text.
\<close>

fun py_str_object :: "pyval \<Rightarrow> string" where
  "py_str_object (PObject s) = s"
| "py_str_object v = []"

subsection \<open>ASCII case conversion for \<open>lower\<close>, \<open>capitalize\<close> and \<open>title\<close>\<close>

text \<open>
  Strings are byte lists here, so the three methods are modelled on the ASCII letters and
  leave every other byte as it is.
\<close>

definition is_upper :: "char \<Rightarrow> bool" where
  "is_upper c = (65 \<le> (of_char c :: nat) \<and> (of_char c :: nat) \<le> 90)"

definition is_lower :: "char \<Rightarrow> bool" where
  "is_lower c = (97 \<le> (of_char c :: nat) \<and> (of_char c :: nat) \<le> 122)"

definition to_lower :: "char \<Rightarrow> char" where
  "to_lower c = (if is_upper c then char_of ((of_char c :: nat) + 32) else c)"

definition to_upper :: "char \<Rightarrow> char" where
  "to_upper c = (if is_lower c then char_of ((of_char c :: nat) - 32) else c)"

definition lower :: "string \<Rightarrow> string" where
  "lower s = map to_lower s"

fun capitalize :: "string \<Rightarrow> string" where
  "capitalize [] = []"
| "capitalize (c # cs) = to_upper c # map to_lower cs"

text \<open>\<open>title_from prev_cased s\<close>: a letter is upper-cased after an uncased byte.\<close>

fun title_from :: "bool \<Rightarrow> string \<Rightarrow> string" where
  "title_from prev_cased [] = []"
| "title_from prev_cased (c # cs) =
     (if is_upper c \<or> is_lower c
      then (if prev_cased then to_lower c else to_upper c) # title_from True cs
      else c # title_from False cs)"

definition title :: "string \<Rightarrow> string" where
  "title s = title_from False s"

definition replace_char :: "char \<Rightarrow> char \<Rightarrow> string \<Rightarrow> string" where
  "replace_char old new s = map (\<lambda>c. if c = old then new else c) s"

section \<open>The model catalog as the introspector reads it\<close>

text \<open>
  \<open>isinstance(field, (ForeignKey, OneToOneField, ManyToManyField))\<close> needs the class
  of the field up to these three: \<open>rel_class\<close> is the relationship class the field's class
  is or derives from, \<open>OtherField\<close> when it is none of them. \<open>class_name\<close> is
  \<open>field.__class__.__name__\<close>.

  An attribute probed with \<open>hasattr\<close> is an option: \<open>None\<close> when the object has no such
  attribute. \<open>max_length\<close>, \<open>max_digits\<close> and \<open>decimal_places\<close> may also hold Python's
  \<open>None\<close>, the inner option. For \<open>choices\<close> the outer \<open>None\<close> stands for a missing
  attribute and for Python's \<open>None\<close> alike (both skip the key), and \<open>Some []\<close> is the
  empty sequence. \<open>default_attr\<close> is \<open>None\<close> for Django's \<open>NOT_PROVIDED\<close>.
\<close>

datatype field_class = ForeignKey | OneToOneField | ManyToManyField | OtherField

record field =
  name :: string
  class_name :: string
  rel_class :: field_class
  null_attr :: bool
  blank :: bool
  default_attr :: "pyval option"
  verbose_name :: "string option"
  help_text :: string
  related_model :: string
  max_length :: "int option option"
  choices :: "(jval \<times> jval) list option"
  max_digits :: "int option option"
  decimal_places :: "int option option"
  unique :: "bool option"
  auto_created :: bool
  concrete :: bool

record model_class =
  model_name :: string
  app_label :: string
  db_table :: string
  meta_verbose_name :: string
  meta_verbose_name_plural :: string
  abstract :: bool
  get_fields :: "field list"

text \<open>
  Django's \<open>Field.has_default()\<close> is \<open>self.default is not NOT_PROVIDED\<close>, and
  \<open>Field.get_default()\<close> on a field that has a default returns \<open>self.default()\<close> when the
  default is callable and \<open>self.default\<close> otherwise: it hands back the value, never the
  callable it came from.
\<close>

definition has_default :: "field \<Rightarrow> bool" where
  "has_default field = (default_attr field \<noteq> None)"

fun get_default :: "pyval \<Rightarrow> pyval" where
  "get_default (PCallable r) = r"
| "get_default v = v"

definition opt_int :: "int option \<Rightarrow> jval" where
  "opt_int v = (case v of None \<Rightarrow> JNull | Some n \<Rightarrow> JInt n)"

section \<open>introspection.py\<close>

definition type_mapping :: "(string \<times> string) list" where
  "type_mapping =
    [(''AutoField'', ''auto''),
     (''BigAutoField'', ''auto''),
     (''CharField'', ''string''),
     (''TextField'', ''text''),
     (''IntegerField'', ''integer''),
     (''BigIntegerField'', ''integer''),
     (''PositiveIntegerField'', ''integer''),
     (''SmallIntegerField'', ''integer''),
     (''FloatField'', ''float''),
     (''DecimalField'', ''decimal''),
     (''BooleanField'', ''boolean''),
     (''DateField'', ''date''),
     (''DateTimeField'', ''datetime''),
     (''TimeField'', ''time''),
     (''EmailField'', ''email''),
     (''URLField'', ''url''),
     (''SlugField'', ''slug''),
     (''UUIDField'', ''uuid''),
     (''FileField'', ''file''),
     (''ImageField'', ''image''),
     (''JSONField'', ''json''),
     (''ForeignKey'', ''foreignkey''),
     (''OneToOneField'', ''onetoone''),
     (''ManyToManyField'', ''manytomany'')]"

definition get_field_type :: "field \<Rightarrow> string" where
  "get_field_type field =
    (case map_of type_mapping (class_name field) of
       Some t \<Rightarrow> t
     | None \<Rightarrow> lower (class_name field))"

definition is_relationship :: "field \<Rightarrow> bool" where
  "is_relationship field = (rel_class field \<noteq> OtherField)"

definition base_info :: "field \<Rightarrow> pydict" where
  "base_info field =
    [(''name'', JStr (name field)),
     (''type'', JStr (get_field_type field)),
     (''required'', JBool (\<not> null_attr field \<and> \<not> blank field \<and> \<not> has_default field)),
     (''label'', JStr (case verbose_name field of
                         Some vn \<Rightarrow> capitalize vn
                       | None \<Rightarrow> title (replace_char CHR ''_'' CHR '' '' (name field)))),
     (''help_text'', if help_text field \<noteq> [] then JStr (help_text field) else JNull)]"

definition add_max_length :: "field \<Rightarrow> pydict \<Rightarrow> pydict" where
  "add_max_length field field_info =
    (case max_length field of
       Some (Some n) \<Rightarrow>
         if n \<noteq> 0 then AList.update ''max_length'' (JInt n) field_info else field_info
     | _ \<Rightarrow> field_info)"

definition add_choices :: "field \<Rightarrow> pydict \<Rightarrow> pydict" where
  "add_choices field field_info =
    (case choices field of
       Some (c # cs) \<Rightarrow>
         AList.update ''choices''
           (JList (map (\<lambda>choice. JDict [(''value'', fst choice), (''label'', snd choice)]) (c # cs)))
           field_info
     | _ \<Rightarrow> field_info)"

definition add_default :: "field \<Rightarrow> pydict \<Rightarrow> pydict" where
  "add_default field field_info =
    (case default_attr field of
       Some d \<Rightarrow>
         (let default = get_default d in
          if callable default then AList.update ''default'' JNull field_info
          else if is_primitive default then AList.update ''default'' (Prim default) field_info
          else AList.update ''default'' (JStr (py_str_object default)) field_info)
     | None \<Rightarrow> AList.update ''default'' JNull field_info)"

definition add_numeric :: "field \<Rightarrow> pydict \<Rightarrow> pydict" where
  "add_numeric field field_info =
    (let field_info = (case max_digits field of
                         Some v \<Rightarrow> AList.update ''max_digits'' (opt_int v) field_info
                       | None \<Rightarrow> field_info)
     in case decimal_places field of
          Some v \<Rightarrow> AList.update ''decimal_places'' (opt_int v) field_info
        | None \<Rightarrow> field_info)"

definition add_unique :: "field \<Rightarrow> pydict \<Rightarrow> pydict" where
  "add_unique field field_info =
    (case unique field of
       Some u \<Rightarrow> AList.update ''unique'' (JBool u) field_info
     | None \<Rightarrow> field_info)"

definition get_field_schema :: "field \<Rightarrow> pydict" where
  "get_field_schema field =
    (let field_info = base_info field in
     if is_relationship field
     then dict_update field_info
            [(''related_model'', JStr (related_model field)),
             (''many'', JBool (rel_class field = ManyToManyField))]
     else add_unique field (add_numeric field (add_default field
            (add_choices field (add_max_length field field_info)))))"

text \<open>
  The loop of \<open>get_model_schema\<close> over \<open>model_class._meta.get_fields()\<close>, with the list
  it appends to.
\<close>

fun fields_loop :: "field list \<Rightarrow> jval list \<Rightarrow> jval list" where
  "fields_loop [] fields_schema = fields_schema"
| "fields_loop (field # rest) fields_schema =
     (if auto_created field \<and> \<not> concrete field
      then fields_loop rest fields_schema
      else fields_loop rest (fields_schema @ [JDict (get_field_schema field)]))"

definition get_model_schema :: "model_class \<Rightarrow> pydict" where
  "get_model_schema model =
    [(''model_name'', JStr (model_name model)),
     (''app_label'', JStr (app_label model)),
     (''table_name'', JStr (db_table model)),
     (''verbose_name'', JStr (meta_verbose_name model)),
     (''verbose_name_plural'', JStr (meta_verbose_name_plural model)),
     (''fields'', JList (fields_loop (get_fields model) []))]"

definition builtin_apps :: "string list" where
  "builtin_apps = [''auth'', ''contenttypes'', ''sessions'', ''admin'']"

fun models_loop :: "model_class list \<Rightarrow> pydict \<Rightarrow> pydict" where
  "models_loop [] schemas = schemas"
| "models_loop (model # rest) schemas =
     (if abstract model then models_loop rest schemas
      else if app_label model \<in> set builtin_apps then models_loop rest schemas
      else models_loop rest
             (AList.update (model_name model) (JDict (get_model_schema model)) schemas))"

text \<open>
  \<open>apps\<close> is what \<open>apps.get_models()\<close> returns; \<open>if app_label:\<close> is false for
  \<open>None\<close> and for the empty string.
\<close>

definition get_all_models_schema :: "model_class list \<Rightarrow> string option \<Rightarrow> pydict" where
  "get_all_models_schema apps label =
    (let models = (case label of
                     None \<Rightarrow> apps
                   | Some l \<Rightarrow> if l \<noteq> [] then filter (\<lambda>m. app_label m = l) apps else apps)
     in models_loop models [])"

definition validate_model_access :: "string \<Rightarrow> string list option \<Rightarrow> bool" where
  "validate_model_access mname allowed_models =
    (case allowed_models of
       None \<Rightarrow> True
     | Some allowed \<Rightarrow> mname \<in> set allowed)"

definition has_key :: "pydict \<Rightarrow> string \<Rightarrow> bool" where
  "has_key d k = (k \<in> set (dict_keys d))"

text \<open>Reading a schema document back: its field entries and a key of an entry.\<close>

definition schema_fields :: "pydict \<Rightarrow> jval list" where
  "schema_fields doc = (case dict_get doc ''fields'' of Some (JList es) \<Rightarrow> es | _ \<Rightarrow> [])"

fun entry_get :: "string \<Rightarrow> jval \<Rightarrow> jval option" where
  "entry_get k (JDict d) = dict_get d k"
| "entry_get k v = None"

section \<open>base.py\<close>

text \<open>
  The repository works through Django's ORM. A table is the list of its rows in the order
  \<open>objects.all()\<close> yields them, a row or model instance is its attribute dictionary, and
  the primary key is the attribute \<open>id\<close> (no model of \<open>models.py\<close> declares another).
\<close>

datatype error =
    ValidationError "(string \<times> string list) list"
  | DoesNotExist
  | MultipleObjectsReturned
  | ZeroDivisionError
  | EmptyPage
  | ValueError
  | OtherError string

type_synonym model_instance = "(string \<times> pyval) list"
type_synonym table = "model_instance list"

text \<open>
  What \<open>create_repository\<close> calls on \<open>model_class\<close> and its instances besides reading
  the table: the constructor \<open>model_class(**data)\<close>, \<open>instance.full_clean()\<close> (which
  raises \<open>ValidationError\<close> with a dictionary from field names to messages, and reads the
  table for uniqueness), \<open>instance.save()\<close>, \<open>queryset.filter(**filters)\<close> and
  \<open>queryset.order_by(*order_by)\<close>. They belong to the model and to Django, so they are
  parameters here.
\<close>

record orm =
  construct :: "(string \<times> pyval) list \<Rightarrow> error + model_instance"
  full_clean :: "table \<Rightarrow> model_instance \<Rightarrow> error + unit"
  save :: "table \<Rightarrow> model_instance \<Rightarrow> (error + model_instance) \<times> table"
  qs_filter :: "(string \<times> pyval) list \<Rightarrow> table \<Rightarrow> error + table"
  qs_order_by :: "string list \<Rightarrow> table \<Rightarrow> error + table"

subsection \<open>Django's Paginator\<close>

text \<open>
  Modelled from the spec: \<open>django.core.paginator.Paginator\<close> is imported by \<open>base.py\<close>
  and is not part of the sources. Section 4.2 of the specification gives \<open>page_size\<close> items
  per page, pages counted from 1, \<open>ceil(total_count / page_size)\<close> pages with a minimum
  of 1, and the last page for a request beyond it; the definitions below follow Django's
  methods of these names (\<open>orphans = 0\<close>, \<open>allow_empty_first_page = True\<close>), which
  compute exactly that, and keep their exceptions.
\<close>

record paginator =
  object_list :: table
  per_page :: int

definition count :: "paginator \<Rightarrow> int" where
  "count p = int (length (object_list p))"

definition num_pages :: "paginator \<Rightarrow> error + int" where
  "num_pages p =
    (let hits = max 1 (count p) in
     if per_page p = 0 then Inl ZeroDivisionError
     else Inr \<lceil>real_of_int hits / real_of_int (per_page p)\<rceil>)"

definition validate_number :: "paginator \<Rightarrow> int \<Rightarrow> error + int" where
  "validate_number p number =
    (if number < 1 then Inl EmptyPage
     else case num_pages p of
            Inl e \<Rightarrow> Inl e
          | Inr n \<Rightarrow> if number > n then Inl EmptyPage else Inr number)"

definition slice :: "'a list \<Rightarrow> int \<Rightarrow> int \<Rightarrow> error + 'a list" where
  "slice xs bottom_i top_i =
    (if bottom_i < 0 \<or> top_i < 0 then Inl ValueError
     else Inr (take (nat top_i - nat bottom_i) (drop (nat bottom_i) xs)))"

definition paginator_page :: "paginator \<Rightarrow> int \<Rightarrow> error + table" where
  "paginator_page p number =
    (case validate_number p number of
       Inl e \<Rightarrow> Inl e
     | Inr number \<Rightarrow>
         (let bottom_i = (number - 1) * per_page p;
              top_i = bottom_i + per_page p;
              top_i = (if top_i + 0 \<ge> count p then count p else top_i)
          in slice (object_list p) bottom_i top_i))"

definition get_page :: "paginator \<Rightarrow> int \<Rightarrow> error + table" where
  "get_page p number =
    (case (case validate_number p number of
             Inl EmptyPage \<Rightarrow> num_pages p
           | Inl e \<Rightarrow> Inl e
           | Inr n \<Rightarrow> Inr n) of
       Inl e \<Rightarrow> Inl e
     | Inr number \<Rightarrow> paginator_page p number)"

subsection \<open>The repository functions\<close>

record page_result =
  data :: table
  page :: int
  total_pages :: int
  total_count :: int

text \<open>\<open>if filters:\<close> and \<open>if order_by:\<close> are false for \<open>None\<close> and for an empty argument.\<close>

definition queryset_of ::
  "orm \<Rightarrow> table \<Rightarrow> (string \<times> pyval) list option \<Rightarrow> string list option \<Rightarrow> error + table" where
  "queryset_of M tbl filters order_by =
    (case (case filters of
             Some (f # fs) \<Rightarrow> qs_filter M (f # fs) tbl
           | _ \<Rightarrow> Inr tbl) of
       Inl e \<Rightarrow> Inl e
     | Inr queryset \<Rightarrow>
         (case order_by of
            Some (k # ks) \<Rightarrow> qs_order_by M (k # ks) queryset
          | _ \<Rightarrow> Inr queryset))"

definition get_all ::
  "orm \<Rightarrow> table \<Rightarrow> (string \<times> pyval) list option \<Rightarrow> string list option \<Rightarrow> int \<Rightarrow> int
     \<Rightarrow> error + page_result" where
  "get_all M tbl filters order_by pg page_size =
    (case queryset_of M tbl filters order_by of
       Inl e \<Rightarrow> Inl e
     | Inr queryset \<Rightarrow>
         (let pgr = \<lparr>object_list = queryset, per_page = page_size\<rparr> in
          case get_page pgr pg of
            Inl e \<Rightarrow> Inl e
          | Inr page_obj \<Rightarrow>
              (case num_pages pgr of
                 Inl e \<Rightarrow> Inl e
               | Inr n \<Rightarrow>
                   Inr \<lparr>data = page_obj, page = pg, total_pages = n,
                        total_count = count pgr\<rparr>)))"

text \<open>
  \<open>objects.get(pk=id)\<close> raises \<open>DoesNotExist\<close> when no row has the key and
  \<open>MultipleObjectsReturned\<close> when several have; \<open>get_by_id\<close> catches the first only and
  returns \<open>None\<close> for it.
\<close>

definition has_pk :: "int \<Rightarrow> model_instance \<Rightarrow> bool" where
  "has_pk i row = (map_of row ''id'' = Some (PInt i))"

definition objects_get :: "table \<Rightarrow> int \<Rightarrow> error + model_instance" where
  "objects_get tbl i =
    (case filter (has_pk i) tbl of
       [] \<Rightarrow> Inl DoesNotExist
     | [row] \<Rightarrow> Inr row
     | _ \<Rightarrow> Inl MultipleObjectsReturned)"

definition get_by_id :: "table \<Rightarrow> int \<Rightarrow> error + model_instance option" where
  "get_by_id tbl i =
    (case objects_get tbl i of
       Inl DoesNotExist \<Rightarrow> Inr None
     | Inl e \<Rightarrow> Inl e
     | Inr row \<Rightarrow> Inr (Some row))"

definition create :: "orm \<Rightarrow> (string \<times> pyval) list \<Rightarrow> table \<Rightarrow> (error + model_instance) \<times> table" where
  "create M dat tbl =
    (case construct M dat of
       Inl e \<Rightarrow> (Inl e, tbl)
     | Inr inst \<Rightarrow>
         (case full_clean M tbl inst of
            Inl e \<Rightarrow> (Inl e, tbl)
          | Inr u \<Rightarrow> save M tbl inst))"

fun setattrs :: "model_instance \<Rightarrow> (string \<times> pyval) list \<Rightarrow> model_instance" where
  "setattrs inst [] = inst"
| "setattrs inst ((key, val) # rest) = setattrs (AList.update key val inst) rest"

definition update ::
  "orm \<Rightarrow> int \<Rightarrow> (string \<times> pyval) list \<Rightarrow> table \<Rightarrow> (error + model_instance option) \<times> table" where
  "update M i dat tbl =
    (case get_by_id tbl i of
       Inl e \<Rightarrow> (Inl e, tbl)
     | Inr None \<Rightarrow> (Inr None, tbl)
     | Inr (Some inst0) \<Rightarrow>
         (let inst = setattrs inst0 dat in
          case full_clean M tbl inst of
            Inl e \<Rightarrow> (Inl e, tbl)
          | Inr u \<Rightarrow>
              (case save M tbl inst of
                 (Inl e, tbl') \<Rightarrow> (Inl e, tbl')
               | (Inr saved, tbl') \<Rightarrow> (Inr (Some saved), tbl'))))"

text \<open>\<open>instance.delete()\<close> removes the rows that carry the instance's primary key.\<close>

definition instance_delete :: "table \<Rightarrow> model_instance \<Rightarrow> table" where
  "instance_delete tbl inst = filter (\<lambda>row. map_of row ''id'' \<noteq> map_of inst ''id'') tbl"

definition delete :: "int \<Rightarrow> table \<Rightarrow> (error + bool) \<times> table" where
  "delete i tbl =
    (case get_by_id tbl i of
       Inl e \<Rightarrow> (Inl e, tbl)
     | Inr None \<Rightarrow> (Inr False, tbl)
     | Inr (Some inst) \<Rightarrow> (Inr True, instance_delete tbl inst))"

section \<open>Fields and models of \<open>models.py\<close> used as examples\<close>

text \<open>
  The attribute values are those Django gives the declarations of \<open>models.py\<close>:
  \<open>Tag\<close> with the reverse side of \<open>Task.tags\<close>, its automatic key and its three declared
  fields; the two relationship fields \<open>Task.project\<close> and \<open>Task.tags\<close>; and
  \<open>TeamMember.joined_at\<close>, whose default is the callable \<open>timezone.now\<close>, here returning
  a fixed instant.
\<close>

definition Tag_tasks :: field where
  "Tag_tasks =
    \<lparr>name = ''tasks'', class_name = ''ManyToManyRel'', rel_class = OtherField,
     null_attr = True, blank = False, default_attr = None, verbose_name = None,
     help_text = [], related_model = ''Task'', max_length = None, choices = None,
     max_digits = None, decimal_places = None, unique = None,
     auto_created = True, concrete = False\<rparr>"

definition Tag_id :: field where
  "Tag_id =
    \<lparr>name = ''id'', class_name = ''BigAutoField'', rel_class = OtherField,
     null_attr = False, blank = True, default_attr = None, verbose_name = Some ''ID'',
     help_text = [], related_model = [], max_length = Some None, choices = None,
     max_digits = None, decimal_places = None, unique = Some True,
     auto_created = True, concrete = True\<rparr>"

definition Tag_name :: field where
  "Tag_name =
    \<lparr>name = ''name'', class_name = ''CharField'', rel_class = OtherField,
     null_attr = False, blank = False, default_attr = None, verbose_name = Some ''name'',
     help_text = ''Tag name'', related_model = [], max_length = Some (Some 50), choices = None,
     max_digits = None, decimal_places = None, unique = Some True,
     auto_created = False, concrete = True\<rparr>"

definition Tag_color :: field where
  "Tag_color =
    \<lparr>name = ''color'', class_name = ''CharField'', rel_class = OtherField,
     null_attr = False, blank = False, default_attr = Some (PStr ''#3B82F6''),
     verbose_name = Some ''color'', help_text = ''Hex color code (e.g., #3B82F6)'',
     related_model = [], max_length = Some (Some 7), choices = None,
     max_digits = None, decimal_places = None, unique = Some False,
     auto_created = False, concrete = True\<rparr>"

definition Tag_created_at :: field where
  "Tag_created_at =
    \<lparr>name = ''created_at'', class_name = ''DateTimeField'', rel_class = OtherField,
     null_attr = False, blank = True, default_attr = None, verbose_name = Some ''created at'',
     help_text = [], related_model = [], max_length = Some None, choices = None,
     max_digits = None, decimal_places = None, unique = Some False,
     auto_created = False, concrete = True\<rparr>"

definition Tag_model :: model_class where
  "Tag_model =
    \<lparr>model_name = ''Tag'', app_label = ''tasks'', db_table = ''tasks_tag'',
     meta_verbose_name = ''Tag'', meta_verbose_name_plural = ''Tags'', abstract = False,
     get_fields = [Tag_tasks, Tag_id, Tag_name, Tag_color, Tag_created_at]\<rparr>"

definition Task_project :: field where
  "Task_project =
    \<lparr>name = ''project'', class_name = ''ForeignKey'', rel_class = ForeignKey,
     null_attr = False, blank = False, default_attr = None, verbose_name = Some ''project'',
     help_text = ''Project this task belongs to'', related_model = ''Project'',
     max_length = Some None, choices = None, max_digits = None, decimal_places = None,
     unique = Some False, auto_created = False, concrete = True\<rparr>"

definition Task_tags :: field where
  "Task_tags =
    \<lparr>name = ''tags'', class_name = ''ManyToManyField'', rel_class = ManyToManyField,
     null_attr = False, blank = True, default_attr = None, verbose_name = Some ''tags'',
     help_text = ''Tags for categorization'', related_model = ''Tag'',
     max_length = Some None, choices = None, max_digits = None, decimal_places = None,
     unique = Some False, auto_created = False, concrete = False\<rparr>"

definition TeamMember_joined_at :: field where
  "TeamMember_joined_at =
    \<lparr>name = ''joined_at'', class_name = ''DateField'', rel_class = OtherField,
     null_attr = False, blank = False,
     default_attr = Some (PCallable (PObject ''2026-11-04 13:30:00+00:00'')),
     verbose_name = Some ''joined at'', help_text = ''Date joined the team'',
     related_model = [], max_length = Some None, choices = None,
     max_digits = None, decimal_places = None, unique = Some False,
     auto_created = False, concrete = True\<rparr>"

text \<open>
  A registry with one model of the \<open>auth\<close> application, one abstract model and \<open>Tag\<close>;
  the first two are cut down to their key field.
\<close>

definition Group_model :: model_class where
  "Group_model =
    \<lparr>model_name = ''Group'', app_label = ''auth'', db_table = ''auth_group'',
     meta_verbose_name = ''group'', meta_verbose_name_plural = ''groups'', abstract = False,
     get_fields = [Tag_id]\<rparr>"

definition Base_model :: model_class where
  "Base_model =
    \<lparr>model_name = ''TimeStamped'', app_label = ''tasks'', db_table = [],
     meta_verbose_name = ''time stamped'', meta_verbose_name_plural = ''time stampeds'',
     abstract = True, get_fields = [Tag_created_at]\<rparr>"

definition example_apps :: "model_class list" where
  "example_apps = [Group_model, Base_model, Tag_model]"

text \<open>
  A persistence layer for \<open>Tag\<close> that is enough to run the repository: the constructor keeps
  the given values, validation rejects a missing or empty \<open>name\<close>, saving replaces the row
  with the instance's key or appends the instance under a fresh key, filters compare for
  equality and ordering keeps the table's order.
\<close>

definition tag_full_clean :: "table \<Rightarrow> model_instance \<Rightarrow> error + unit" where
  "tag_full_clean tbl inst =
    (case map_of inst ''name'' of
       Some (PStr (c # cs)) \<Rightarrow> Inr ()
     | _ \<Rightarrow> Inl (ValidationError [(''name'', [''This field cannot be blank.''])]))"

definition next_id :: "table \<Rightarrow> int" where
  "next_id tbl =
    1 + fold (\<lambda>row m. case map_of row ''id'' of Some (PInt i) \<Rightarrow> max i m | _ \<Rightarrow> m) tbl 0"

definition tag_save :: "table \<Rightarrow> model_instance \<Rightarrow> (error + model_instance) \<times> table" where
  "tag_save tbl inst =
    (case map_of inst ''id'' of
       Some (PInt i) \<Rightarrow>
         (Inr inst,
          if filter (has_pk i) tbl = [] then tbl @ [inst]
          else map (\<lambda>row. if has_pk i row then inst else row) tbl)
     | _ \<Rightarrow>
         (let saved = AList.update ''id'' (PInt (next_id tbl)) inst
          in (Inr saved, tbl @ [saved])))"

definition tag_orm :: orm where
  "tag_orm =
    \<lparr>construct = (\<lambda>dat. Inr dat),
     full_clean = tag_full_clean,
     save = tag_save,
     qs_filter = (\<lambda>fs tbl. Inr (filter (\<lambda>row. list_all (\<lambda>kv. map_of row (fst kv) = Some (snd kv)) fs) tbl)),
     qs_order_by = (\<lambda>ks tbl. Inr tbl)\<rparr>"

definition tag_table :: table where
  "tag_table =
    [[(''id'', PInt 1), (''name'', PStr ''backend'')],
     [(''id'', PInt 2), (''name'', PStr ''frontend'')],
     [(''id'', PInt 3), (''name'', PStr ''urgent'')]]"

section \<open>Lookups in an emitted field schema\<close>

lemma has_key_iff: "has_key d k \<longleftrightarrow> map_of d k \<noteq> None"
  by (simp add: has_key_def dict_keys_def map_of_eq_None_iff)

lemma map_of_add_max_length:
  "map_of (add_max_length f d) k =
     (if k = ''max_length'' \<and> (\<exists>n. max_length f = Some (Some n) \<and> n \<noteq> 0)
      then Some (JInt (the (the (max_length f)))) else map_of d k)"
  by (auto simp: add_max_length_def update_conv' split: option.splits)

lemma map_of_add_choices:
  "k \<noteq> ''choices'' \<Longrightarrow> map_of (add_choices f d) k = map_of d k"
  by (simp add: add_choices_def update_conv' split: option.splits list.splits)

lemma map_of_add_default_other:
  "k \<noteq> ''default'' \<Longrightarrow> map_of (add_default f d) k = map_of d k"
  by (simp add: add_default_def update_conv' Let_def split: option.splits)

lemma map_of_add_default:
  "map_of (add_default f d) ''default'' =
     Some (case default_attr f of
             None \<Rightarrow> JNull
           | Some v \<Rightarrow> if callable (get_default v) then JNull
                       else if is_primitive (get_default v) then Prim (get_default v)
                       else JStr (py_str_object (get_default v)))"
  by (simp add: add_default_def update_conv' Let_def split: option.splits)

lemma map_of_add_numeric:
  "k \<noteq> ''max_digits'' \<Longrightarrow> k \<noteq> ''decimal_places'' \<Longrightarrow>
     map_of (add_numeric f d) k = map_of d k"
  by (simp add: add_numeric_def update_conv' Let_def split: option.splits)

lemma map_of_add_unique:
  "k \<noteq> ''unique'' \<Longrightarrow> map_of (add_unique f d) k = map_of d k"
  by (simp add: add_unique_def update_conv' split: option.splits)

lemmas scalar_lookups =
  map_of_add_max_length map_of_add_choices map_of_add_default_other map_of_add_numeric
  map_of_add_unique

lemma schema_of_relationship:
  "is_relationship f \<Longrightarrow>
     map_of (get_field_schema f) k =
       (if k = ''many'' then Some (JBool (rel_class f = ManyToManyField))
        else if k = ''related_model'' then Some (JStr (related_model f))
        else map_of (base_info f) k)"
  by (simp add: get_field_schema_def Let_def update_conv')

lemma schema_of_scalar:
  "\<not> is_relationship f \<Longrightarrow>
     get_field_schema f =
       add_unique f (add_numeric f (add_default f (add_choices f (add_max_length f (base_info f)))))"
  by (simp add: get_field_schema_def Let_def)

lemma base_info_lookup:
  "map_of (base_info f) k =
     (if k = ''name'' then Some (JStr (name f))
      else if k = ''type'' then Some (JStr (get_field_type f))
      else if k = ''required''
        then Some (JBool (\<not> null_attr f \<and> \<not> blank f \<and> \<not> has_default f))
      else if k = ''label''
        then Some (JStr (case verbose_name f of
                           Some vn \<Rightarrow> capitalize vn
                         | None \<Rightarrow> title (replace_char CHR ''_'' CHR '' '' (name f))))
      else if k = ''help_text''
        then Some (if help_text f \<noteq> [] then JStr (help_text f) else JNull)
      else None)"
  by (simp add: base_info_def)

lemma schema_base_keys:
  assumes "k \<in> {''name'', ''type'', ''required'', ''label'', ''help_text''}"
  shows "map_of (get_field_schema f) k = map_of (base_info f) k"
proof (cases "is_relationship f")
  case True
  with assms show ?thesis by (auto simp: schema_of_relationship)
next
  case False
  with assms show ?thesis by (auto simp: schema_of_scalar scalar_lookups)
qed

lemma default_lookup:
  "\<not> is_relationship f \<Longrightarrow>
     dict_get (get_field_schema f) ''default'' =
       Some (case default_attr f of
               None \<Rightarrow> JNull
             | Some v \<Rightarrow> if callable (get_default v) then JNull
                         else if is_primitive (get_default v) then Prim (get_default v)
                         else JStr (py_str_object (get_default v)))"
  by (simp add: dict_get_def schema_of_scalar map_of_add_unique map_of_add_numeric
        map_of_add_default)

lemma required_lookup:
  "dict_get (get_field_schema f) ''required'' =
     Some (JBool (\<not> null_attr f \<and> \<not> blank f \<and> \<not> has_default f))"
  by (simp add: dict_get_def schema_base_keys base_info_lookup)

section \<open>The loops over fields and models\<close>

lemma fields_loop_eq:
  "fields_loop fs acc =
     acc @ map (\<lambda>f. JDict (get_field_schema f))
               (filter (\<lambda>f. \<not> (auto_created f \<and> \<not> concrete f)) fs)"
  by (induction fs arbitrary: acc) auto

lemma schema_fields_eq:
  "schema_fields (get_model_schema m) =
     map (\<lambda>f. JDict (get_field_schema f))
         (filter (\<lambda>f. \<not> (auto_created f \<and> \<not> concrete f)) (get_fields m))"
  by (simp add: schema_fields_def dict_get_def get_model_schema_def fields_loop_eq)

lemma update_entries:
  "(k, v) \<in> set (AList.update k' v' al) \<Longrightarrow> (k, v) = (k', v') \<or> (k, v) \<in> set al"
  by (induction al) (auto split: if_splits)

lemma models_loop_entries:
  "(k, doc) \<in> set (models_loop ms acc) \<Longrightarrow>
     (k, doc) \<in> set acc \<or>
     (\<exists>m \<in> set ms. k = model_name m \<and> doc = JDict (get_model_schema m) \<and>
                     \<not> abstract m \<and> app_label m \<notin> set builtin_apps)"
proof (induction ms arbitrary: acc)
  case Nil
  then show ?case by simp
next
  case (Cons m ms)
  show ?case
  proof (cases "abstract m \<or> app_label m \<in> set builtin_apps")
    case True
    with Cons.prems have "(k, doc) \<in> set (models_loop ms acc)"
      by (auto split: if_splits)
    from Cons.IH[OF this] show ?thesis by auto
  next
    case False
    with Cons.prems have
      "(k, doc) \<in> set (models_loop ms
                         (AList.update (model_name m) (JDict (get_model_schema m)) acc))"
      by (auto split: if_splits)
    from Cons.IH[OF this] False show ?thesis
      by (auto dest: update_entries)
  qed
qed

lemma all_models_entries:
  "(k, doc) \<in> set (get_all_models_schema apps label) \<Longrightarrow>
     \<exists>m \<in> set apps. k = model_name m \<and> doc = JDict (get_model_schema m) \<and>
                     \<not> abstract m \<and> app_label m \<notin> set builtin_apps"
  by (auto simp: get_all_models_schema_def Let_def split: option.splits if_splits
           dest!: models_loop_entries)

lemma example_apps_schema:
  "get_all_models_schema example_apps None = [(''Tag'', JDict (get_model_schema Tag_model))]"
  by (simp add: get_all_models_schema_def example_apps_def Group_model_def Base_model_def
        Tag_model_def builtin_apps_def)

section \<open>Properties of the schema introspector\<close>

text \<open>
  Claim C1. The \<open>required\<close> entry of every emitted field schema is
  \<open>not null and not blank and not has_default()\<close> of the field it was made from. This holds
  for a single field, position by position for the field list of a model's schema document,
  and every document returned for the whole registry is such a model schema document.
\<close>

theorem required_is_derived:
  "dict_get (get_field_schema field) ''required'' =
     Some (JBool (\<not> null_attr field \<and> \<not> blank field \<and> \<not> has_default field))
   \<and> map (entry_get ''required'') (schema_fields (get_model_schema model)) =
       map (\<lambda>f. Some (JBool (\<not> null_attr f \<and> \<not> blank f \<and> \<not> has_default f)))
           (filter (\<lambda>f. \<not> (auto_created f \<and> \<not> concrete f)) (get_fields model))
   \<and> (\<forall>(k, doc) \<in> set (get_all_models_schema apps label).
         \<exists>m \<in> set apps. doc = JDict (get_model_schema m))"
proof (intro conjI)
  show "dict_get (get_field_schema field) ''required'' =
          Some (JBool (\<not> null_attr field \<and> \<not> blank field \<and> \<not> has_default field))"
    by (rule required_lookup)
  show "map (entry_get ''required'') (schema_fields (get_model_schema model)) =
          map (\<lambda>f. Some (JBool (\<not> null_attr f \<and> \<not> blank f \<and> \<not> has_default f)))
              (filter (\<lambda>f. \<not> (auto_created f \<and> \<not> concrete f)) (get_fields model))"
    by (simp add: schema_fields_eq required_lookup comp_def)
  show "\<forall>(k, doc) \<in> set (get_all_models_schema apps label).
          \<exists>m \<in> set apps. doc = JDict (get_model_schema m)"
    using all_models_entries by blast
qed

text \<open>The statement of C1 at \<open>Tag.name\<close>, the \<open>Tag\<close> model and the example registry.\<close>

theorem required_is_derived_witness:
  "dict_get (get_field_schema Tag_name) ''required'' = Some (JBool True)
   \<and> map (entry_get ''required'') (schema_fields (get_model_schema Tag_model)) =
       [Some (JBool False), Some (JBool True), Some (JBool False), Some (JBool False)]
   \<and> get_all_models_schema example_apps None = [(''Tag'', JDict (get_model_schema Tag_model))]
   \<and> (\<exists>m \<in> set example_apps. get_model_schema Tag_model = get_model_schema m)"
  using required_is_derived [of Tag_name Tag_model example_apps None]
  by (simp add: example_apps_schema Tag_model_def Tag_name_def Tag_tasks_def Tag_id_def
        Tag_color_def Tag_created_at_def has_default_def)

text \<open>
  Claim C3. The claim asks for \<open>default = null\<close> when the declared default is a callable.
  \<open>get_field_schema\<close> does not look at the declared default but at \<open>field.get_default()\<close>,
  which has already called it: for \<open>TeamMember.joined_at\<close> (\<open>default=timezone.now\<close>) the
  schema reports the text of the instant that the call returned, not null.
\<close>

theorem callable_default_is_called:
  "dict_get (get_field_schema TeamMember_joined_at) ''default'' =
     Some (JStr ''2026-11-04 13:30:00+00:00'')
   \<and> dict_get (get_field_schema TeamMember_joined_at) ''default'' \<noteq> Some JNull"
proof -
  have "\<not> is_relationship TeamMember_joined_at"
    by (simp add: is_relationship_def TeamMember_joined_at_def)
  from default_lookup [OF this] show ?thesis
    by (simp add: TeamMember_joined_at_def)
qed

text \<open>
  Claim C6. Whatever the registry and the \<open>app_label\<close> argument, every entry of
  \<open>get_all_models_schema\<close> is keyed by the name of a registered model that is not abstract
  and whose application is none of \<open>auth\<close>, \<open>contenttypes\<close>, \<open>sessions\<close>, \<open>admin\<close>,
  and holds that model's schema document. The function has no allow-list argument.
\<close>

theorem builtin_and_abstract_excluded:
  "\<forall>(k, doc) \<in> set (get_all_models_schema apps label).
     \<exists>m \<in> set apps. k = model_name m \<and> doc = JDict (get_model_schema m) \<and>
       \<not> abstract m \<and> app_label m \<notin> {''auth'', ''contenttypes'', ''sessions'', ''admin''}"
  using all_models_entries [of _ _ apps label]
  by (fastforce simp: builtin_apps_def)

text \<open>C6 on the example registry: only \<open>Tag\<close> is left.\<close>

theorem builtin_and_abstract_excluded_witness:
  "get_all_models_schema example_apps None = [(''Tag'', JDict (get_model_schema Tag_model))]
   \<and> abstract Base_model \<and> app_label Group_model = ''auth''
   \<and> (\<exists>m \<in> set example_apps.
          ''Tag'' = model_name m \<and> get_model_schema Tag_model = get_model_schema m \<and>
          \<not> abstract m \<and> app_label m \<notin> {''auth'', ''contenttypes'', ''sessions'', ''admin''})"
  using builtin_and_abstract_excluded [of example_apps None]
  by (simp add: example_apps_schema Base_model_def Group_model_def)

text \<open>
  Claim C7. For a field that is a \<open>ForeignKey\<close>, a \<open>OneToOneField\<close> or a
  \<open>ManyToManyField\<close>, the schema carries the related model's name and \<open>many\<close>, true exactly
  for \<open>ManyToManyField\<close>, and has no \<open>max_length\<close>, \<open>choices\<close>, \<open>max_digits\<close> or
  \<open>decimal_places\<close> key.
\<close>

theorem relationship_field_schema:
  assumes "rel_class field \<in> {ForeignKey, OneToOneField, ManyToManyField}"
  shows "dict_get (get_field_schema field) ''related_model'' = Some (JStr (related_model field))
       \<and> dict_get (get_field_schema field) ''many'' =
           Some (JBool (rel_class field = ManyToManyField))
       \<and> \<not> has_key (get_field_schema field) ''max_length''
       \<and> \<not> has_key (get_field_schema field) ''choices''
       \<and> \<not> has_key (get_field_schema field) ''max_digits''
       \<and> \<not> has_key (get_field_schema field) ''decimal_places''"
proof -
  from assms have "is_relationship field"
    by (auto simp: is_relationship_def)
  then show ?thesis
    by (simp add: dict_get_def has_key_iff schema_of_relationship base_info_lookup)
qed

text \<open>C7 at the many-to-many field \<open>Task.tags\<close>.\<close>

theorem relationship_field_schema_witness:
  "rel_class Task_tags \<in> {ForeignKey, OneToOneField, ManyToManyField}
   \<and> dict_get (get_field_schema Task_tags) ''related_model'' = Some (JStr ''Tag'')
   \<and> dict_get (get_field_schema Task_tags) ''many'' = Some (JBool True)
   \<and> \<not> has_key (get_field_schema Task_tags) ''max_length''
   \<and> \<not> has_key (get_field_schema Task_tags) ''choices''
   \<and> \<not> has_key (get_field_schema Task_tags) ''max_digits''
   \<and> \<not> has_key (get_field_schema Task_tags) ''decimal_places''"
proof -
  have h: "rel_class Task_tags \<in> {ForeignKey, OneToOneField, ManyToManyField}"
    by (simp add: Task_tags_def)
  show ?thesis
    using h relationship_field_schema [OF h] by (simp add: Task_tags_def)
qed

text \<open>
  Claim C8. The field list of a schema document is, in order, the schema of every field of
  \<open>get_fields()\<close> that is not both auto-created and non-concrete. So every field that is
  declared (not auto-created) or concrete has its entry, and, field names being unique within
  a model, no entry bears the name of a reverse relation (auto-created and not concrete).
\<close>

theorem field_enumeration:
  "schema_fields (get_model_schema model) =
     map (\<lambda>f. JDict (get_field_schema f))
         (filter (\<lambda>f. \<not> auto_created f \<or> concrete f) (get_fields model))
   \<and> (\<forall>f \<in> set (get_fields model).
        (\<not> auto_created f \<or> concrete f)
          \<longrightarrow> JDict (get_field_schema f) \<in> set (schema_fields (get_model_schema model)))
   \<and> (distinct (map name (get_fields model)) \<longrightarrow>
       (\<forall>f \<in> set (get_fields model).
          auto_created f \<and> \<not> concrete f
            \<longrightarrow> Some (JStr (name f))
                  \<notin> set (map (entry_get ''name'') (schema_fields (get_model_schema model)))))"
proof (intro conjI)
  have p: "(\<lambda>f. \<not> (auto_created f \<and> \<not> concrete f)) = (\<lambda>f. \<not> auto_created f \<or> concrete f)"
    by auto
  show eq: "schema_fields (get_model_schema model) =
     map (\<lambda>f. JDict (get_field_schema f))
         (filter (\<lambda>f. \<not> auto_created f \<or> concrete f) (get_fields model))"
    by (simp add: schema_fields_eq p)
  show "\<forall>f \<in> set (get_fields model).
        (\<not> auto_created f \<or> concrete f)
          \<longrightarrow> JDict (get_field_schema f) \<in> set (schema_fields (get_model_schema model))"
    unfolding eq by auto
  have nm: "dict_get (get_field_schema f) ''name'' = Some (JStr (name f))" for f
    by (simp add: dict_get_def schema_base_keys base_info_lookup)
  show "distinct (map name (get_fields model)) \<longrightarrow>
       (\<forall>f \<in> set (get_fields model).
          auto_created f \<and> \<not> concrete f
            \<longrightarrow> Some (JStr (name f))
                  \<notin> set (map (entry_get ''name'') (schema_fields (get_model_schema model))))"
  proof (intro impI ballI)
    fix f
    assume d: "distinct (map name (get_fields model))"
      and f: "f \<in> set (get_fields model)" and r: "auto_created f \<and> \<not> concrete f"
    show "Some (JStr (name f))
            \<notin> set (map (entry_get ''name'') (schema_fields (get_model_schema model)))"
    proof
      assume "Some (JStr (name f))
                \<in> set (map (entry_get ''name'') (schema_fields (get_model_schema model)))"
      then obtain g where g: "g \<in> set (get_fields model)" "\<not> auto_created g \<or> concrete g"
        "name g = name f"
        unfolding eq by (auto simp: nm)
      from d f g(1) g(3) have "g = f"
        by (meson distinct_map inj_onD)
      with g(2) r show False by simp
    qed
  qed
qed

text \<open>C8 on \<open>Tag\<close>: the reverse side \<open>tasks\<close> of \<open>Task.tags\<close> is left out.\<close>

theorem field_enumeration_witness:
  "map (entry_get ''name'') (schema_fields (get_model_schema Tag_model)) =
     [Some (JStr ''id''), Some (JStr ''name''), Some (JStr ''color''), Some (JStr ''created_at'')]
   \<and> Tag_tasks \<in> set (get_fields Tag_model) \<and> auto_created Tag_tasks \<and> \<not> concrete Tag_tasks
   \<and> Tag_name \<in> set (get_fields Tag_model) \<and> concrete Tag_name
   \<and> distinct (map name (get_fields Tag_model))
   \<and> JDict (get_field_schema Tag_name) \<in> set (schema_fields (get_model_schema Tag_model))
   \<and> Some (JStr (name Tag_tasks))
        \<notin> set (map (entry_get ''name'') (schema_fields (get_model_schema Tag_model)))"
proof -
  have m: "Tag_tasks \<in> set (get_fields Tag_model)" "Tag_name \<in> set (get_fields Tag_model)"
    by (simp_all add: Tag_model_def)
  have a: "auto_created Tag_tasks \<and> \<not> concrete Tag_tasks" "\<not> auto_created Tag_name \<or> concrete Tag_name"
    by (simp_all add: Tag_tasks_def Tag_name_def)
  have d: "distinct (map name (get_fields Tag_model))"
    by (simp add: Tag_model_def Tag_tasks_def Tag_id_def Tag_name_def Tag_color_def
          Tag_created_at_def)
  have n: "map (entry_get ''name'') (schema_fields (get_model_schema Tag_model)) =
     [Some (JStr ''id''), Some (JStr ''name''), Some (JStr ''color''), Some (JStr ''created_at'')]"
    by (simp add: schema_fields_eq dict_get_def schema_base_keys base_info_lookup
          Tag_model_def Tag_tasks_def Tag_id_def Tag_name_def Tag_color_def Tag_created_at_def)
  from field_enumeration [of Tag_model] m a d n show ?thesis
    by (simp add: Tag_name_def)
qed

text \<open>
  Claim C9. Without an allow-list every name is allowed; with one, a name is allowed exactly
  when it is an element of the list. Elements are compared as strings, so a name that
  differs in case is refused and \<open>*\<close> matches nothing but itself.
\<close>

theorem access_is_membership:
  "validate_model_access mname None
   \<and> (validate_model_access mname (Some allowed) \<longleftrightarrow> mname \<in> set allowed)
   \<and> \<not> validate_model_access ''task'' (Some [''Task''])
   \<and> \<not> validate_model_access ''Task'' (Some [''*''])
   \<and> \<not> validate_model_access ''Task'' (Some [''T*''])"
  by (simp add: validate_model_access_def)

text \<open>
  Claim C10. Every field schema has the keys \<open>name\<close>, \<open>type\<close>, \<open>required\<close>, \<open>label\<close>
  and \<open>help_text\<close>. A field that is not a relationship also has \<open>default\<close>, null when no
  default is declared, and has \<open>max_length\<close> exactly when the attribute is a non-zero
  integer, which is then the value. A relationship field has none of \<open>default\<close>,
  \<open>max_length\<close>, \<open>choices\<close>, \<open>unique\<close>, \<open>max_digits\<close>, \<open>decimal_places\<close>.
\<close>

theorem schema_keys:
  "(\<forall>k \<in> {''name'', ''type'', ''required'', ''label'', ''help_text''}.
      has_key (get_field_schema field) k)
   \<and> (\<not> is_relationship field \<longrightarrow>
        has_key (get_field_schema field) ''default''
        \<and> (default_attr field = None \<longrightarrow>
             dict_get (get_field_schema field) ''default'' = Some JNull)
        \<and> (has_key (get_field_schema field) ''max_length''
             \<longleftrightarrow> (\<exists>n. max_length field = Some (Some n) \<and> n \<noteq> 0))
        \<and> (\<forall>n. max_length field = Some (Some n) \<and> n \<noteq> 0 \<longrightarrow>
             dict_get (get_field_schema field) ''max_length'' = Some (JInt n)))
   \<and> (is_relationship field \<longrightarrow>
        (\<forall>k \<in> {''default'', ''max_length'', ''choices'', ''unique'', ''max_digits'',
                 ''decimal_places''}. \<not> has_key (get_field_schema field) k))"
proof (intro conjI impI)
  show "\<forall>k \<in> {''name'', ''type'', ''required'', ''label'', ''help_text''}.
      has_key (get_field_schema field) k"
    by (auto simp: has_key_iff schema_base_keys base_info_lookup)
next
  assume s: "\<not> is_relationship field"
  show "has_key (get_field_schema field) ''default''"
    by (simp add: has_key_iff schema_of_scalar[OF s] map_of_add_unique map_of_add_numeric
          map_of_add_default)
  show "dict_get (get_field_schema field) ''default'' = Some JNull"
    if "default_attr field = None"
    using that
    by (simp add: dict_get_def schema_of_scalar[OF s] map_of_add_unique map_of_add_numeric
          map_of_add_default)
  have ml: "map_of (get_field_schema field) ''max_length'' =
              map_of (add_max_length field (base_info field)) ''max_length''"
    by (simp add: schema_of_scalar[OF s] map_of_add_unique map_of_add_numeric
          map_of_add_default_other map_of_add_choices)
  show "has_key (get_field_schema field) ''max_length''
          \<longleftrightarrow> (\<exists>n. max_length field = Some (Some n) \<and> n \<noteq> 0)"
    by (simp add: has_key_iff ml map_of_add_max_length base_info_lookup)
  show "\<forall>n. max_length field = Some (Some n) \<and> n \<noteq> 0 \<longrightarrow>
             dict_get (get_field_schema field) ''max_length'' = Some (JInt n)"
    by (simp add: dict_get_def ml map_of_add_max_length)
next
  assume r: "is_relationship field"
  show "\<forall>k \<in> {''default'', ''max_length'', ''choices'', ''unique'', ''max_digits'',
                 ''decimal_places''}. \<not> has_key (get_field_schema field) k"
    by (auto simp: has_key_iff schema_of_relationship[OF r] base_info_lookup)
qed

text \<open>
  C10 at \<open>Tag.name\<close> and \<open>Tag.created_at\<close> (not relationships) and at \<open>Task.project\<close>.
\<close>

theorem schema_keys_witness:
  "\<not> is_relationship Tag_name \<and> is_relationship Task_project
   \<and> default_attr Tag_name = None
   \<and> map (has_key (get_field_schema Tag_name))
       [''name'', ''type'', ''required'', ''label'', ''help_text'', ''default'', ''max_length'']
     = [True, True, True, True, True, True, True]
   \<and> dict_get (get_field_schema Tag_name) ''default'' = Some JNull
   \<and> dict_get (get_field_schema Tag_name) ''max_length'' = Some (JInt 50)
   \<and> \<not> has_key (get_field_schema Tag_created_at) ''max_length''
   \<and> map (has_key (get_field_schema Task_project))
       [''name'', ''type'', ''required'', ''label'', ''help_text'', ''default'', ''max_length'',
        ''choices'', ''unique'', ''max_digits'', ''decimal_places'']
     = [True, True, True, True, True, False, False, False, False, False, False]"
proof -
  have h: "\<not> is_relationship Tag_name" "is_relationship Task_project"
    "\<not> is_relationship Tag_created_at"
    "default_attr Tag_name = None" "max_length Tag_name = Some (Some 50)"
    "max_length Tag_created_at = Some None"
    by (simp_all add: is_relationship_def Tag_name_def Task_project_def Tag_created_at_def)
  from h schema_keys [of Tag_name] schema_keys [of Task_project] schema_keys [of Tag_created_at]
  show ?thesis by simp
qed

section \<open>Pagination arithmetic\<close>

lemma chunk_lengths:
  "(\<Sum>k<n. length (take P (drop (k * P) xs))) = min (n * P) (length xs)"
proof (induction n)
  case 0
  then show ?case by simp
next
  case (Suc n)
  have "(\<Sum>k<Suc n. length (take P (drop (k * P) xs))) =
          min (n * P) (length xs) + min P (length xs - n * P)"
    using Suc by simp
  also have "\<dots> = min (P + n * P) (length xs)"
    by arith
  finally show ?case by simp
qed

lemma ceil_pages:
  assumes "1 \<le> (P::int)" "0 \<le> N"
  shows "\<lceil>real_of_int (max 1 N) / real_of_int P\<rceil> = max 1 \<lceil>real_of_int N / real_of_int P\<rceil>"
proof (cases "N = 0")
  case True
  have "\<lceil>real_of_int 1 / real_of_int P\<rceil> = 1"
    using assms(1) by (simp add: ceiling_eq_iff)
  with True show ?thesis by simp
next
  case False
  with assms have "1 \<le> N" by simp
  then have "0 < real_of_int N / real_of_int P" using assms(1) by simp
  then have "1 \<le> \<lceil>real_of_int N / real_of_int P\<rceil>"
    by (simp add: ceiling_le_iff less_ceiling_iff)
  with \<open>1 \<le> N\<close> show ?thesis by (simp add: max_def)
qed

lemma num_pages_eq:
  "1 \<le> P \<Longrightarrow>
   num_pages \<lparr>object_list = qs, per_page = P\<rparr> =
     Inr (max 1 \<lceil>real_of_int (int (length qs)) / real_of_int P\<rceil>)"
  using ceil_pages[of P "int (length qs)"]
  by (simp add: num_pages_def count_def Let_def)

lemma pages_cover:
  assumes "1 \<le> (P::int)" "0 \<le> N"
  shows "N \<le> max 1 \<lceil>real_of_int N / real_of_int P\<rceil> * P"
proof -
  define q where "q = (- N) div P"
  define r where "r = (- N) mod P"
  have c: "\<lceil>real_of_int N / real_of_int P\<rceil> = - q"
    unfolding q_def by (rule ceiling_divide_eq_div)
  have e: "q * P + r = - N"
    unfolding q_def r_def by (simp add: mult.commute)
  have r: "0 \<le> r" "r < P"
    unfolding r_def using assms(1) by simp_all
  show ?thesis
  proof (cases "1 \<le> - q")
    case True
    have "(- q) * P = - (q * P)" by simp
    with True e r show ?thesis unfolding c by (simp add: max_def)
  next
    case False
    then have "0 \<le> q * P" using assms(1) by simp
    with e r assms have "N = 0" by linarith
    with False assms show ?thesis unfolding c by (simp add: max_def)
  qed
qed

lemma get_page_in_range:
  assumes "1 \<le> P" "1 \<le> k" and np: "num_pages \<lparr>object_list = qs, per_page = P\<rparr> = Inr n"
    and "k \<le> n"
  shows "get_page \<lparr>object_list = qs, per_page = P\<rparr> k =
           Inr (take (nat P) (drop (nat ((k - 1) * P)) qs))"
proof -
  let ?p = "\<lparr>object_list = qs, per_page = P\<rparr>"
  have v: "validate_number ?p k = Inr k"
    using assms by (simp add: validate_number_def)
  have b: "0 \<le> (k - 1) * P" using assms by simp
  have "paginator_page ?p k = Inr (take (nat P) (drop (nat ((k - 1) * P)) qs))"
  proof (cases "(k - 1) * P + P \<ge> int (length qs)")
    case True
    then have "length qs - nat ((k - 1) * P) \<le> nat P"
      using b by linarith
    then have "take (nat P) (drop (nat ((k - 1) * P)) qs) = drop (nat ((k - 1) * P)) qs"
      by simp
    then show ?thesis
      using True b by (simp add: paginator_page_def v count_def slice_def Let_def)
  next
    case False
    then have "nat ((k - 1) * P + P) - nat ((k - 1) * P) = nat P"
      using b assms(1) by linarith
    with False b assms(1) show ?thesis
      by (simp add: paginator_page_def v count_def slice_def Let_def)
  qed
  with v show ?thesis by (simp add: get_page_def)
qed

lemma get_page_out_of_range:
  assumes np: "num_pages \<lparr>object_list = qs, per_page = P\<rparr> = Inr n" and "1 \<le> n"
    and "k < 1 \<or> n < k"
  shows "get_page \<lparr>object_list = qs, per_page = P\<rparr> k =
         get_page \<lparr>object_list = qs, per_page = P\<rparr> n"
proof -
  let ?p = "\<lparr>object_list = qs, per_page = P\<rparr>"
  have "validate_number ?p k = Inl EmptyPage"
    using assms by (auto simp: validate_number_def)
  moreover have "validate_number ?p n = Inr n"
    using assms by (simp add: validate_number_def)
  ultimately show ?thesis
    using np by (simp add: get_page_def)
qed

lemma num_pages_ge1:
  "1 \<le> P \<Longrightarrow> num_pages \<lparr>object_list = qs, per_page = P\<rparr> = Inr n \<Longrightarrow> 1 \<le> n"
  by (auto simp: num_pages_eq)

lemma get_page_total:
  assumes "1 \<le> P"
  shows "\<exists>rows. get_page \<lparr>object_list = qs, per_page = P\<rparr> k = Inr rows"
proof -
  obtain n where np: "num_pages \<lparr>object_list = qs, per_page = P\<rparr> = Inr n"
    using assms by (simp add: num_pages_eq)
  have n1: "1 \<le> n" using assms np by (rule num_pages_ge1)
  have n: "get_page \<lparr>object_list = qs, per_page = P\<rparr> n =
             Inr (take (nat P) (drop (nat ((n - 1) * P)) qs))"
    using assms n1 np by (rule get_page_in_range) simp
  show ?thesis
  proof (cases "1 \<le> k \<and> k \<le> n")
    case True
    then show ?thesis using get_page_in_range[OF assms _ np, of k] by simp
  next
    case False
    then have "k < 1 \<or> n < k" by linarith
    from get_page_out_of_range[OF np n1 this] n show ?thesis by simp
  qed
qed

lemma page_lengths_sum:
  assumes "1 \<le> P" and np: "num_pages \<lparr>object_list = qs, per_page = P\<rparr> = Inr n"
  shows "(\<Sum>k = 1..nat n.
            case get_page \<lparr>object_list = qs, per_page = P\<rparr> (int k) of
              Inr rows \<Rightarrow> length rows | Inl e \<Rightarrow> 0) = length qs"
proof -
  let ?g = "\<lambda>k. case get_page \<lparr>object_list = qs, per_page = P\<rparr> (int k) of
              Inr rows \<Rightarrow> length rows | Inl e \<Rightarrow> 0"
  let ?h = "\<lambda>k. length (take (nat P) (drop (k * nat P) qs))"
  have n: "n = max 1 \<lceil>real_of_int (int (length qs)) / real_of_int P\<rceil>"
    using np assms by (simp add: num_pages_eq)
  have each: "?g k = ?h (k - 1)" if "k \<in> {1..nat n}" for k
  proof -
    from that have k: "1 \<le> int k" "int k \<le> n" by auto
    have "nat ((int k - 1) * P) = (k - 1) * nat P"
      using k(1) assms by (simp add: nat_mult_distrib nat_diff_distrib)
    with get_page_in_range[OF assms(1) k(1) np k(2)] show ?thesis by simp
  qed
  have "sum ?g {1..nat n} = (\<Sum>k = 1..nat n. ?h (k - 1))"
    using each by (intro sum.cong) auto
  also have "\<dots> = (\<Sum>k<nat n. ?h k)"
    by (simp add: sum.atLeast1_atMost_eq del: length_take length_drop)
  also have "\<dots> = min (nat n * nat P) (length qs)"
    by (rule chunk_lengths)
  also have "\<dots> = length qs"
  proof -
    have "int (length qs) \<le> n * P"
      unfolding n using pages_cover[OF assms(1), of "int (length qs)"] by simp
    moreover have "1 \<le> n" using assms(1) np by (rule num_pages_ge1)
    then have "int (nat n * nat P) = n * P"
      using assms by simp
    ultimately have "length qs \<le> nat n * nat P" by linarith
    then show ?thesis by simp
  qed
  finally show ?thesis .
qed

section \<open>Properties of the repository\<close>

lemma get_all_eq:
  assumes q: "queryset_of M tbl filters order_by = Inr qs" and P: "1 \<le> P"
    and g: "get_page \<lparr>object_list = qs, per_page = P\<rparr> pg = Inr rows"
  shows "get_all M tbl filters order_by pg P =
           Inr \<lparr>data = rows, page = pg,
                total_pages = max 1 \<lceil>real_of_int (int (length qs)) / real_of_int P\<rceil>,
                total_count = int (length qs)\<rparr>"
  using g by (simp add: get_all_def q Let_def num_pages_eq[OF P] count_def)

text \<open>
  Claim C2. Let the filtered and ordered collection have \<open>N\<close> rows and let
  \<open>page_size = P \<ge> 1\<close>. Then \<open>get_all\<close> returns a result for every page number, with
  \<open>total_count = N\<close> and \<open>total_pages = max 1 (ceil (N / P))\<close>; page \<open>k\<close> of
  \<open>1..total_pages\<close> holds the rows from position \<open>(k - 1) * P\<close> on, at most \<open>P\<close> of
  them; the lengths of these pages add up to \<open>N\<close>; a page number beyond \<open>total_pages\<close>
  gets the rows of the last page; and an empty collection gives an empty page for every
  page number.
\<close>

theorem get_all_pagination:
  fixes P :: int
  assumes q: "queryset_of M tbl filters order_by = Inr qs" and P: "1 \<le> P"
  defines "n \<equiv> max 1 \<lceil>real_of_int (int (length qs)) / real_of_int P\<rceil>"
  shows "(\<forall>pg. \<exists>rows. get_all M tbl filters order_by pg P =
            Inr \<lparr>data = rows, page = pg, total_pages = n, total_count = int (length qs)\<rparr>)
       \<and> (\<forall>pg. 1 \<le> pg \<and> pg \<le> n \<longrightarrow>
            get_all M tbl filters order_by pg P =
              Inr \<lparr>data = take (nat P) (drop (nat ((pg - 1) * P)) qs), page = pg,
                   total_pages = n, total_count = int (length qs)\<rparr>)
       \<and> (\<Sum>k = 1..nat n. case get_all M tbl filters order_by (int k) P of
                              Inr r \<Rightarrow> length (data r) | Inl e \<Rightarrow> 0) = length qs
       \<and> (\<forall>pg. n < pg \<longrightarrow>
            get_all M tbl filters order_by pg P =
              Inr \<lparr>data = take (nat P) (drop (nat ((n - 1) * P)) qs), page = pg,
                   total_pages = n, total_count = int (length qs)\<rparr>)
       \<and> (qs = [] \<longrightarrow> (\<forall>pg. get_all M tbl filters order_by pg P =
              Inr \<lparr>data = [], page = pg, total_pages = 1, total_count = 0\<rparr>))"
proof (intro conjI allI impI)
  let ?p = "\<lparr>object_list = qs, per_page = P\<rparr>"
  have np: "num_pages ?p = Inr n"
    unfolding n_def by (rule num_pages_eq[OF P])
  have n1: "1 \<le> n" unfolding n_def by simp
  have last: "get_page ?p n = Inr (take (nat P) (drop (nat ((n - 1) * P)) qs))"
    using P n1 np by (rule get_page_in_range) simp
  show "\<exists>rows. get_all M tbl filters order_by pg P =
          Inr \<lparr>data = rows, page = pg, total_pages = n, total_count = int (length qs)\<rparr>" for pg
  proof -
    obtain rows where "get_page ?p pg = Inr rows"
      using get_page_total[OF P] by blast
    from get_all_eq[OF q P this] show ?thesis unfolding n_def by blast
  qed
  show "get_all M tbl filters order_by pg P =
          Inr \<lparr>data = take (nat P) (drop (nat ((pg - 1) * P)) qs), page = pg,
               total_pages = n, total_count = int (length qs)\<rparr>"
    if "1 \<le> pg \<and> pg \<le> n" for pg
  proof -
    have "get_page ?p pg = Inr (take (nat P) (drop (nat ((pg - 1) * P)) qs))"
      using P _ np by (rule get_page_in_range) (use that in simp_all)
    from get_all_eq[OF q P this] show ?thesis unfolding n_def .
  qed
  show "(\<Sum>k = 1..nat n. case get_all M tbl filters order_by (int k) P of
                           Inr r \<Rightarrow> length (data r) | Inl e \<Rightarrow> 0) = length qs"
  proof -
    have "(case get_all M tbl filters order_by (int k) P of
             Inr r \<Rightarrow> length (data r) | Inl e \<Rightarrow> 0) =
          (case get_page ?p (int k) of Inr rows \<Rightarrow> length rows | Inl e \<Rightarrow> 0)" for k
    proof -
      obtain rows where r: "get_page ?p (int k) = Inr rows"
        using get_page_total[OF P] by blast
      from get_all_eq[OF q P r] r show ?thesis by simp
    qed
    then show ?thesis
      using page_lengths_sum[OF P np] by simp
  qed
  show "get_all M tbl filters order_by pg P =
          Inr \<lparr>data = take (nat P) (drop (nat ((n - 1) * P)) qs), page = pg,
               total_pages = n, total_count = int (length qs)\<rparr>"
    if "n < pg" for pg
  proof -
    have "get_page ?p pg = Inr (take (nat P) (drop (nat ((n - 1) * P)) qs))"
      using get_page_out_of_range[OF np n1, of pg] that last by simp
    from get_all_eq[OF q P this] show ?thesis unfolding n_def .
  qed
  show "get_all M tbl filters order_by pg P =
          Inr \<lparr>data = [], page = pg, total_pages = 1, total_count = 0\<rparr>"
    if e: "qs = []" for pg
  proof -
    obtain rows where r: "get_page ?p pg = Inr rows"
      using get_page_total[OF P] by blast
    have n: "n = 1" unfolding n_def using e by simp
    have "get_page ?p pg = get_page ?p n"
    proof (cases "1 \<le> pg \<and> pg \<le> n")
      case True
      with n have "pg = n" by linarith
      then show ?thesis by simp
    next
      case False
      then have "pg < 1 \<or> n < pg" by linarith
      from get_page_out_of_range[OF np n1 this] show ?thesis .
    qed
    with last e have "get_page ?p pg = Inr []" by simp
    from get_all_eq[OF q P this] e show ?thesis by simp
  qed
qed

text \<open>
  C2 on three rows with \<open>page_size = 50\<close>: pages 1 and 5 both hold the three rows,
  \<open>total_pages\<close> is 1.
\<close>

theorem get_all_pagination_witness:
  "queryset_of tag_orm tag_table None None = Inr tag_table \<and> (1::int) \<le> 50
   \<and> get_all tag_orm tag_table None None 5 50 =
       Inr \<lparr>data = tag_table, page = 5, total_pages = 1, total_count = 3\<rparr>
   \<and> get_all tag_orm tag_table None None 1 50 =
       Inr \<lparr>data = tag_table, page = 1, total_pages = 1, total_count = 3\<rparr>
   \<and> (\<Sum>k = 1..nat 1. case get_all tag_orm tag_table None None (int k) 50 of
                          Inr r \<Rightarrow> length (data r) | Inl e \<Rightarrow> 0) = length tag_table"
proof -
  have q: "queryset_of tag_orm tag_table None None = Inr tag_table"
    by (simp add: queryset_of_def)
  have P: "(1::int) \<le> 50" by simp
  have l: "length tag_table = 3" by (simp add: tag_table_def)
  have n: "max 1 \<lceil>real_of_int (int (length tag_table)) / real_of_int 50\<rceil> = 1"
    by (simp add: l)
  note t = get_all_pagination [OF q P, unfolded n]
  from t have a: "get_all tag_orm tag_table None None 5 50 =
       Inr \<lparr>data = tag_table, page = 5, total_pages = 1, total_count = 3\<rparr>"
    by (simp add: l)
  from t have b: "get_all tag_orm tag_table None None 1 50 =
       Inr \<lparr>data = tag_table, page = 1, total_pages = 1, total_count = 3\<rparr>"
    by (simp add: l)
  from t have c: "(\<Sum>k = 1..nat 1. case get_all tag_orm tag_table None None (int k) 50 of
                          Inr r \<Rightarrow> length (data r) | Inl e \<Rightarrow> 0) = length tag_table"
    by blast
  from q P a b c show ?thesis by blast
qed

lemma get_by_id_absent:
  "\<forall>row \<in> set tbl. \<not> has_pk i row \<Longrightarrow> get_by_id tbl i = Inr None"
  by (simp add: get_by_id_def objects_get_def)

lemma get_by_id_Some:
  "get_by_id tbl i = Inr (Some inst) \<Longrightarrow> has_pk i inst \<and> inst \<in> set tbl"
proof -
  assume a: "get_by_id tbl i = Inr (Some inst)"
  then have "filter (has_pk i) tbl = [inst]"
    by (auto simp: get_by_id_def objects_get_def split: list.splits error.splits sum.splits)
  then have "inst \<in> set (filter (has_pk i) tbl)" by simp
  then show ?thesis by simp
qed

text \<open>
  Claim C4. When \<open>full_clean\<close> raises \<open>ValidationError\<close> with the mapping \<open>errs\<close> from
  field names to message lists, \<open>create\<close> and \<open>update\<close> raise that same error with that
  same mapping and the table is what it was: \<open>create\<close> has added no row, and \<open>get_by_id\<close>
  after the failed \<open>update\<close> still returns the record as it was before.
\<close>

theorem validation_failure_keeps_rows:
  "(construct M dat = Inr inst \<and> full_clean M tbl inst = Inl (ValidationError errs) \<longrightarrow>
      create M dat tbl = (Inl (ValidationError errs), tbl))
   \<and> (get_by_id tbl i = Inr (Some inst0) \<and>
      full_clean M tbl (setattrs inst0 dat) = Inl (ValidationError errs) \<longrightarrow>
      update M i dat tbl = (Inl (ValidationError errs), tbl) \<and>
      get_by_id (snd (update M i dat tbl)) i = Inr (Some inst0))"
  by (simp add: create_def update_def Let_def)

text \<open>C4 on the example table: creating a tag with an empty name, and renaming tag 2 to it.\<close>

theorem validation_failure_keeps_rows_witness:
  "construct tag_orm [(''name'', PStr [])] = Inr [(''name'', PStr [])]
   \<and> full_clean tag_orm tag_table [(''name'', PStr [])] =
       Inl (ValidationError [(''name'', [''This field cannot be blank.''])])
   \<and> create tag_orm [(''name'', PStr [])] tag_table =
       (Inl (ValidationError [(''name'', [''This field cannot be blank.''])]), tag_table)
   \<and> get_by_id tag_table 2 = Inr (Some [(''id'', PInt 2), (''name'', PStr ''frontend'')])
   \<and> full_clean tag_orm tag_table
        (setattrs [(''id'', PInt 2), (''name'', PStr ''frontend'')] [(''name'', PStr [])]) =
       Inl (ValidationError [(''name'', [''This field cannot be blank.''])])
   \<and> update tag_orm 2 [(''name'', PStr [])] tag_table =
       (Inl (ValidationError [(''name'', [''This field cannot be blank.''])]), tag_table)
   \<and> get_by_id (snd (update tag_orm 2 [(''name'', PStr [])] tag_table)) 2 =
       Inr (Some [(''id'', PInt 2), (''name'', PStr ''frontend'')])"
proof -
  have c: "construct tag_orm [(''name'', PStr [])] = Inr [(''name'', PStr [])]"
    by (simp add: tag_orm_def)
  have f: "full_clean tag_orm tag_table [(''name'', PStr [])] =
       Inl (ValidationError [(''name'', [''This field cannot be blank.''])])"
    by (simp add: tag_orm_def tag_full_clean_def)
  have g: "get_by_id tag_table 2 = Inr (Some [(''id'', PInt 2), (''name'', PStr ''frontend'')])"
    by (simp add: get_by_id_def objects_get_def tag_table_def has_pk_def)
  have u: "full_clean tag_orm tag_table
        (setattrs [(''id'', PInt 2), (''name'', PStr ''frontend'')] [(''name'', PStr [])]) =
       Inl (ValidationError [(''name'', [''This field cannot be blank.''])])"
    by (simp add: tag_orm_def tag_full_clean_def)
  from c f g u
    validation_failure_keeps_rows [of tag_orm "[(''name'', PStr [])]" "[(''name'', PStr [])]"
      tag_table "[(''name'', [''This field cannot be blank.''])]" 2
      "[(''id'', PInt 2), (''name'', PStr ''frontend'')]"]
  show ?thesis by simp
qed

text \<open>
  Claim C5. When no row has the key \<open>i\<close>, \<open>get_by_id\<close> returns \<open>None\<close>, \<open>update\<close>
  returns \<open>None\<close> and leaves the table as it is, and \<open>delete\<close> returns \<open>False\<close>; none of
  the three raises. After a \<open>delete\<close> that returned a value, a second \<open>delete\<close> of the same
  key returns \<open>False\<close>.
\<close>

theorem missing_record_is_a_value:
  "((\<forall>row \<in> set tbl. \<not> has_pk i row) \<longrightarrow>
      get_by_id tbl i = Inr None
      \<and> update M i dat tbl = (Inr None, tbl)
      \<and> delete i tbl = (Inr False, tbl))
   \<and> (delete i tbl = (Inr b, tbl') \<longrightarrow> delete i tbl' = (Inr False, tbl'))"
proof (intro conjI impI)
  assume a: "\<forall>row \<in> set tbl. \<not> has_pk i row"
  then have g: "get_by_id tbl i = Inr None" by (rule get_by_id_absent)
  then show "get_by_id tbl i = Inr None" .
  from g show "update M i dat tbl = (Inr None, tbl)" by (simp add: update_def)
  from g show "delete i tbl = (Inr False, tbl)" by (simp add: delete_def)
next
  assume d: "delete i tbl = (Inr b, tbl')"
  have "\<forall>row \<in> set tbl'. \<not> has_pk i row"
  proof (cases "get_by_id tbl i")
    case (Inl e)
    with d show ?thesis by (simp add: delete_def)
  next
    case (Inr r)
    show ?thesis
    proof (cases r)
      case None
      with Inr d have "tbl' = tbl" by (simp add: delete_def)
      moreover from None Inr have "filter (has_pk i) tbl = []"
        by (auto simp: get_by_id_def objects_get_def split: list.splits error.splits sum.splits)
      ultimately show ?thesis by (simp add: filter_empty_conv)
    next
      case (Some inst)
      with Inr have "has_pk i inst" by (simp add: get_by_id_Some)
      moreover from Some Inr d have "tbl' = instance_delete tbl inst"
        by (simp add: delete_def)
      ultimately show ?thesis
        by (auto simp: instance_delete_def has_pk_def)
    qed
  qed
  then have "get_by_id tbl' i = Inr None" by (rule get_by_id_absent)
  then show "delete i tbl' = (Inr False, tbl')" by (simp add: delete_def)
qed

text \<open>C5 on the example table: key 7 is absent, key 2 is deleted twice.\<close>

theorem missing_record_is_a_value_witness:
  "list_all (\<lambda>row. \<not> has_pk 7 row) tag_table
   \<and> get_by_id tag_table 7 = Inr None
   \<and> update tag_orm 7 [(''name'', PStr ''x'')] tag_table = (Inr None, tag_table)
   \<and> delete 7 tag_table = (Inr False, tag_table)
   \<and> delete 2 tag_table =
       (Inr True, [[(''id'', PInt 1), (''name'', PStr ''backend'')],
                   [(''id'', PInt 3), (''name'', PStr ''urgent'')]])
   \<and> delete 2 [[(''id'', PInt 1), (''name'', PStr ''backend'')],
                [(''id'', PInt 3), (''name'', PStr ''urgent'')]] =
       (Inr False, [[(''id'', PInt 1), (''name'', PStr ''backend'')],
                    [(''id'', PInt 3), (''name'', PStr ''urgent'')]])"
proof -
  have a: "\<forall>row \<in> set tag_table. \<not> has_pk 7 row"
    by (simp add: tag_table_def has_pk_def)
  have d: "delete 2 tag_table =
       (Inr True, [[(''id'', PInt 1), (''name'', PStr ''backend'')],
                   [(''id'', PInt 3), (''name'', PStr ''urgent'')]])"
    by (simp add: delete_def get_by_id_def objects_get_def tag_table_def has_pk_def
          instance_delete_def)
  from a d
    missing_record_is_a_value [of tag_table 7 tag_orm "[(''name'', PStr ''x'')]" False tag_table]
    missing_record_is_a_value [of tag_table 2 tag_orm "[]" True
      "[[(''id'', PInt 1), (''name'', PStr ''backend'')],
        [(''id'', PInt 3), (''name'', PStr ''urgent'')]]"]
  show ?thesis by (simp add: list_all_iff)
qed

end
